theory Spec2Isabelle
  imports Main
begin

section \<open>The comparison macros of bpf/lib/utils.h\<close>

text \<open>
  The header defines five function-like macros over C expressions:
  \<^verbatim>\<open>__min(t_x, t_y, x, y)\<close> and \<^verbatim>\<open>__max(t_x, t_y, x, y)\<close> (GNU statement expressions
  that bind each operand to a local of the given type and then compare the locals),
  \<^verbatim>\<open>min(x, y)\<close> and \<^verbatim>\<open>max(x, y)\<close> (the same with \<^verbatim>\<open>typeof(x)\<close>, \<^verbatim>\<open>typeof(y)\<close> as the
  types), \<^verbatim>\<open>min_t(t, x, y)\<close> and \<^verbatim>\<open>max_t(t, x, y)\<close> (the same with \<^verbatim>\<open>t\<close> for both types),
  and \<^verbatim>\<open>SIMPLE_MIN(x, y)\<close>, the plain conditional \<^verbatim>\<open>((x) < (y) ? (x) : (y))\<close>.

  A macro receives expressions, not values, so the embedding has three layers:
  the integer types of C and their conversions, expressions as state transformers
  that carry their static type, and the macros as functions from expressions to
  expressions.
\<close>

subsection \<open>Integer types and conversions\<close>

text \<open>
  An integer type is its signedness and its width in bits: \<^verbatim>\<open>char\<close>, \<^verbatim>\<open>short\<close>,
  \<^verbatim>\<open>int\<close>, \<^verbatim>\<open>long\<close>, \<^verbatim>\<open>long long\<close> and their unsigned variants, of widths 8, 16, 32, 64
  and 64 on the BPF target. The value of an object is the mathematical integer it
  denotes.
\<close>

datatype ctype = CInt (is_signed: bool) (bits: nat)

definition int_bits :: nat where
  "int_bits = 32"

definition c_int :: ctype where
  "c_int = CInt True int_bits"

definition c_uint :: ctype where
  "c_uint = CInt False int_bits"

definition c_int64 :: ctype where
  "c_int64 = CInt True 64"

definition c_uint64 :: ctype where
  "c_uint64 = CInt False 64"

text \<open>
  Conversion of a value to an integer type, as an initialisation
  \<^verbatim>\<open>t _x = (x);\<close> or a cast does it: reduction modulo \<open>2 ^ w\<close> into the range of the
  type (for a signed target this is what GCC and Clang define).
\<close>

definition to_type :: "ctype \<Rightarrow> int \<Rightarrow> int" where
  "to_type t v = (if is_signed t then signed_take_bit (bits t - 1) v else take_bit (bits t) v)"

definition in_range :: "ctype \<Rightarrow> int \<Rightarrow> bool" where
  "in_range t v = (to_type t v = v)"

text \<open>
  The integer promotions: a type narrower than \<^verbatim>\<open>int\<close> becomes \<^verbatim>\<open>int\<close>, which
  holds all its values. The usual arithmetic conversions: both operands are promoted;
  of two types of one signedness the wider is the common type; of a signed and an
  unsigned type the signed one is the common type when it is strictly wider (it then
  holds every value of the unsigned one), and otherwise the common type is unsigned, of
  the width of the unsigned operand.
\<close>

definition promote :: "ctype \<Rightarrow> ctype" where
  "promote t = (if bits t < int_bits then c_int else t)"

definition usual_arith :: "ctype \<Rightarrow> ctype \<Rightarrow> ctype" where
  "usual_arith t_a t_b =
     (let p = promote t_a; q = promote t_b in
      if is_signed p = is_signed q then (if bits q \<le> bits p then p else q)
      else if is_signed p then (if bits q < bits p then p else q)
      else (if bits p < bits q then q else p))"

text \<open>
  The relational operators \<^verbatim>\<open><\<close> and \<^verbatim>\<open>>\<close> on two typed values: both are
  converted to the common type and compared there.
\<close>

definition c_less :: "ctype \<Rightarrow> int \<Rightarrow> ctype \<Rightarrow> int \<Rightarrow> bool" where
  "c_less t_a a t_b b = (let c = usual_arith t_a t_b in to_type c a < to_type c b)"

definition c_greater :: "ctype \<Rightarrow> int \<Rightarrow> ctype \<Rightarrow> int \<Rightarrow> bool" where
  "c_greater t_a a t_b b = (let c = usual_arith t_a t_b in to_type c a > to_type c b)"

subsection \<open>Expressions\<close>

text \<open>
  An operand of a macro is an expression: it has a static type, which \<^verbatim>\<open>typeof\<close>
  reads without evaluating it, and evaluating it in a state gives a value and the state
  after its side effects.
\<close>

record 's expr =
  typeof :: ctype
  run :: "'s \<Rightarrow> int \<times> 's"

text \<open>A constant of type \<open>t\<close>, and the cast \<^verbatim>\<open>(t)(e)\<close>.\<close>

definition const :: "ctype \<Rightarrow> int \<Rightarrow> 's expr" where
  "const t v = \<lparr>typeof = t, run = (\<lambda>s. (v, s))\<rparr>"

definition cast :: "ctype \<Rightarrow> 's expr \<Rightarrow> 's expr" where
  "cast t e = \<lparr>typeof = t, run = (\<lambda>s. case run e s of (v, s') \<Rightarrow> (to_type t v, s'))\<rparr>"

subsection \<open>The macros\<close>

text \<open>
  \<^verbatim>\<open>__min(t_x, t_y, x, y)\<close> is
  \<^verbatim>\<open>({ t_x _x = (x); t_y _y = (y); (void) (&_x == &_y); _x < _y ? _x : _y; })\<close>.
  The two declarations are full expressions in sequence: \<open>x\<close> is evaluated and converted
  to \<open>t_x\<close>, then \<open>y\<close> is evaluated in the state that \<open>x\<close> left and converted to \<open>t_y\<close>.
  The comparison of the two addresses is there for the compiler to compare the two
  pointer types; it reads no operand and changes nothing. The value of the statement
  expression is that of the conditional, whose type is the common type of the two
  locals. The locals \<^verbatim>\<open>_x\<close> and \<^verbatim>\<open>_y\<close> are \<open>ux\<close> and \<open>uy\<close> below, and the macros
  \<^verbatim>\<open>__min\<close>, \<^verbatim>\<open>__max\<close>, \<^verbatim>\<open>min\<close>, \<^verbatim>\<open>max\<close> are \<open>min_macro\<close>, \<open>max_macro\<close>, \<open>min_c\<close>, \<open>max_c\<close>.
\<close>

definition min_macro :: "ctype \<Rightarrow> ctype \<Rightarrow> 's expr \<Rightarrow> 's expr \<Rightarrow> 's expr" where
  "min_macro t_x t_y x y =
     \<lparr>typeof = usual_arith t_x t_y,
      run = (\<lambda>s. case run x s of (vx, s1) \<Rightarrow>
                  case run y s1 of (vy, s2) \<Rightarrow>
                    (let ux = to_type t_x vx; uy = to_type t_y vy in
                     (to_type (usual_arith t_x t_y) (if c_less t_x ux t_y uy then ux else uy), s2)))\<rparr>"

definition max_macro :: "ctype \<Rightarrow> ctype \<Rightarrow> 's expr \<Rightarrow> 's expr \<Rightarrow> 's expr" where
  "max_macro t_x t_y x y =
     \<lparr>typeof = usual_arith t_x t_y,
      run = (\<lambda>s. case run x s of (vx, s1) \<Rightarrow>
                  case run y s1 of (vy, s2) \<Rightarrow>
                    (let ux = to_type t_x vx; uy = to_type t_y vy in
                     (to_type (usual_arith t_x t_y) (if c_greater t_x ux t_y uy then ux else uy), s2)))\<rparr>"

definition min_c :: "'s expr \<Rightarrow> 's expr \<Rightarrow> 's expr" where
  "min_c x y = min_macro (typeof x) (typeof y) x y"

definition max_c :: "'s expr \<Rightarrow> 's expr \<Rightarrow> 's expr" where
  "max_c x y = max_macro (typeof x) (typeof y) x y"

definition min_t :: "ctype \<Rightarrow> 's expr \<Rightarrow> 's expr \<Rightarrow> 's expr" where
  "min_t t x y = min_macro t t x y"

definition max_t :: "ctype \<Rightarrow> 's expr \<Rightarrow> 's expr \<Rightarrow> 's expr" where
  "max_t t x y = max_macro t t x y"

text \<open>
  \<^verbatim>\<open>SIMPLE_MIN(x, y)\<close> is \<^verbatim>\<open>((x) < (y) ? (x) : (y))\<close>: the operand texts are pasted
  three times. C does not fix which operand of \<^verbatim>\<open><\<close> is evaluated first, so the order
  is a parameter; after the comparison there is a sequence point, and the chosen
  operand is evaluated again, in the state the comparison left.
\<close>

datatype eval_order = LeftFirst | RightFirst

definition operands :: "eval_order \<Rightarrow> 's expr \<Rightarrow> 's expr \<Rightarrow> 's \<Rightarrow> int \<times> int \<times> 's" where
  "operands ord x y s =
     (case ord of
        LeftFirst \<Rightarrow> (case run x s of (vx, s1) \<Rightarrow> case run y s1 of (vy, s2) \<Rightarrow> (vx, vy, s2))
      | RightFirst \<Rightarrow> (case run y s of (vy, s1) \<Rightarrow> case run x s1 of (vx, s2) \<Rightarrow> (vx, vy, s2)))"

definition less_expr :: "eval_order \<Rightarrow> 's expr \<Rightarrow> 's expr \<Rightarrow> 's \<Rightarrow> bool \<times> 's" where
  "less_expr ord x y s =
     (case operands ord x y s of (vx, vy, s2) \<Rightarrow> (c_less (typeof x) vx (typeof y) vy, s2))"

definition SIMPLE_MIN :: "eval_order \<Rightarrow> 's expr \<Rightarrow> 's expr \<Rightarrow> 's expr" where
  "SIMPLE_MIN ord x y =
     \<lparr>typeof = usual_arith (typeof x) (typeof y),
      run = (\<lambda>s. case less_expr ord x y s of (b, s2) \<Rightarrow>
                  case run (if b then x else y) s2 of (v, s3) \<Rightarrow>
                    (to_type (usual_arith (typeof x) (typeof y)) v, s3))\<rparr>"

subsection \<open>Counting evaluations\<close>

text \<open>
  To observe how often a macro evaluates an operand, the state is extended with two
  counters, and an operand is wrapped so that each evaluation of it increments its
  counter before behaving as the operand does on the inner state.
\<close>

record 's probed =
  hits_x :: nat
  hits_y :: nat
  inner :: 's

definition probe_x :: "'s expr \<Rightarrow> 's probed expr" where
  "probe_x e =
     \<lparr>typeof = typeof e,
      run = (\<lambda>p. case run e (inner p) of (v, s') \<Rightarrow> (v, p\<lparr>hits_x := hits_x p + 1, inner := s'\<rparr>))\<rparr>"

definition probe_y :: "'s expr \<Rightarrow> 's probed expr" where
  "probe_y e =
     \<lparr>typeof = typeof e,
      run = (\<lambda>p. case run e (inner p) of (v, s') \<Rightarrow> (v, p\<lparr>hits_y := hits_y p + 1, inner := s'\<rparr>))\<rparr>"

subsection \<open>An operand with a side effect\<close>

text \<open>
  The post-increment \<^verbatim>\<open>i++\<close> of an \<^verbatim>\<open>unsigned int\<close> variable, on a state that is the
  value of the variable: its value is the old \<open>i\<close>, its effect is to store \<open>i + 1\<close>,
  reduced modulo \<open>2 ^ 32\<close>.
\<close>

definition post_inc :: "int expr" where
  "post_inc = \<lparr>typeof = c_uint, run = (\<lambda>i. (i, to_type c_uint (i + 1)))\<rparr>"

section \<open>Conversions\<close>

lemma two_power_le_int: "m \<le> n \<Longrightarrow> (2::int) ^ m \<le> 2 ^ n"
  by (rule power_increasing) simp_all

lemma to_type_idem: "to_type t (to_type t v) = to_type t v"
  by (simp add: to_type_def)

lemma in_range_to_type: "in_range t (to_type t v)"
  by (simp add: in_range_def to_type_idem)

lemma in_range_promote:
  assumes "in_range t v"
  shows "in_range (promote t) v"
proof (cases "bits t < int_bits")
  case False
  with assms show ?thesis by (simp add: promote_def)
next
  case True
  then have le: "bits t \<le> 31" and le': "bits t - 1 \<le> 31"
    by (simp_all add: int_bits_def)
  show ?thesis
  proof (cases "is_signed t")
    case True
    with assms have "- (2 ^ (bits t - 1)) \<le> v" and "v < 2 ^ (bits t - 1)"
      by (simp_all add: in_range_def to_type_def signed_take_bit_int_eq_self_iff)
    moreover have "(2::int) ^ (bits t - 1) \<le> 2 ^ 31"
      using le' by (rule two_power_le_int)
    ultimately have "- (2 ^ 31) \<le> v" and "v < 2 ^ 31"
      by linarith+
    with \<open>bits t < int_bits\<close> show ?thesis
      by (simp add: promote_def c_int_def int_bits_def in_range_def to_type_def
          signed_take_bit_int_eq_self_iff)
  next
    case False
    with assms have "0 \<le> v" and "v < 2 ^ bits t"
      by (simp_all add: in_range_def to_type_def take_bit_int_eq_self_iff)
    moreover have "(2::int) ^ bits t \<le> 2 ^ 31"
      using le by (rule two_power_le_int)
    ultimately have "- (2 ^ 31) \<le> v" and "v < 2 ^ 31"
      by linarith+
    with \<open>bits t < int_bits\<close> show ?thesis
      by (simp add: promote_def c_int_def int_bits_def in_range_def to_type_def
          signed_take_bit_int_eq_self_iff)
  qed
qed

lemma usual_arith_same: "usual_arith t t = promote t"
  by (simp add: usual_arith_def Let_def)

lemma to_type_common_same: "in_range t v \<Longrightarrow> to_type (usual_arith t t) v = v"
  using in_range_promote [of t v] by (simp add: usual_arith_same in_range_def)

lemma to_type_common_to_type: "to_type (usual_arith t t) (to_type t v) = to_type t v"
  by (rule to_type_common_same) (rule in_range_to_type)

lemma to_type_signed_id:
  "- (2 ^ (w - 1)) \<le> v \<Longrightarrow> v < 2 ^ (w - 1) \<Longrightarrow> to_type (CInt True w) v = v"
  by (simp add: to_type_def signed_take_bit_int_eq_self_iff)

lemma to_type_unsigned_id:
  "0 \<le> v \<Longrightarrow> v < 2 ^ w \<Longrightarrow> to_type (CInt False w) v = v"
  by (simp add: to_type_def take_bit_int_eq_self_iff)

lemma to_type_unsigned_mod: "to_type (CInt False w) v = v mod 2 ^ w"
  by (simp add: to_type_def take_bit_eq_mod)

lemma in_range_c_int: "- (2 ^ 31) \<le> v \<Longrightarrow> v < 2 ^ 31 \<Longrightarrow> in_range c_int v"
  by (simp add: in_range_def c_int_def int_bits_def to_type_signed_id)

lemma in_range_narrow_c_int:
  assumes "in_range t v" and "bits t < int_bits"
  shows "to_type c_int v = v"
  using in_range_promote [OF assms(1)] assms(2) by (simp add: promote_def in_range_def)

lemma usual_arith_c_int: "usual_arith c_int c_int = c_int"
  by (simp add: usual_arith_def promote_def c_int_def)

lemma usual_arith_c_uint: "usual_arith c_uint c_uint = c_uint"
  by (simp add: usual_arith_def promote_def c_uint_def)

lemma usual_arith_c_int64: "usual_arith c_int64 c_int64 = c_int64"
  by (simp add: usual_arith_def promote_def c_int64_def int_bits_def)

lemma usual_arith_signed_unsigned_wide:
  "int_bits \<le> w \<Longrightarrow> usual_arith (CInt True w) (CInt False w) = CInt False w"
  by (simp add: usual_arith_def promote_def)

lemma usual_arith_narrow:
  "bits t_a < int_bits \<Longrightarrow> bits t_b < int_bits \<Longrightarrow> usual_arith t_a t_b = c_int"
  by (simp add: usual_arith_def promote_def)

lemma neg_signed_mod_ge:
  assumes "in_range (CInt True w) vx" and "vx < 0" and "0 < w"
  shows "2 ^ (w - 1) \<le> vx mod 2 ^ w"
proof -
  from assms(1) have lo: "- (2 ^ (w - 1)) \<le> vx"
    by (simp add: in_range_def to_type_def signed_take_bit_int_eq_self_iff)
  from assms(3) have p: "(2::int) ^ w = 2 * 2 ^ (w - 1)"
    by (cases w) simp_all
  have pos: "(0::int) < 2 ^ (w - 1)" by simp
  have "(vx + 2 ^ w) mod 2 ^ w = vx + 2 ^ w"
    using lo p pos assms(2) by (intro mod_pos_pos_trivial) linarith+
  then have "vx mod 2 ^ w = vx + 2 ^ w" by simp
  with lo p show ?thesis by linarith
qed

section \<open>Values of the macros on operands of one type\<close>

lemma run_min_macro_same:
  assumes "run x s = (vx, s1)" and "run y s1 = (vy, s2)"
    and "in_range t vx" and "in_range t vy"
  shows "run (min_macro t t x y) s = (if vx < vy then vx else vy, s2)"
proof -
  from assms(3,4) have "to_type t vx = vx" and "to_type t vy = vy"
    by (simp_all add: in_range_def)
  moreover from assms(3,4)
  have "to_type (usual_arith t t) vx = vx" and "to_type (usual_arith t t) vy = vy"
    by (simp_all add: to_type_common_same)
  ultimately show ?thesis
    using assms(1,2) by (simp add: min_macro_def c_less_def)
qed

lemma run_max_macro_same:
  assumes "run x s = (vx, s1)" and "run y s1 = (vy, s2)"
    and "in_range t vx" and "in_range t vy"
  shows "run (max_macro t t x y) s = (if vx > vy then vx else vy, s2)"
proof -
  from assms(3,4) have "to_type t vx = vx" and "to_type t vy = vy"
    by (simp_all add: in_range_def)
  moreover from assms(3,4)
  have "to_type (usual_arith t t) vx = vx" and "to_type (usual_arith t t) vy = vy"
    by (simp_all add: to_type_common_same)
  ultimately show ?thesis
    using assms(1,2) by (simp add: max_macro_def c_greater_def)
qed

lemma fst_run_min_macro_same:
  "fst (run (min_macro t t x y) s) =
     min (to_type t (fst (run x s))) (to_type t (fst (run y (snd (run x s)))))"
  by (simp add: min_macro_def split_def Let_def c_less_def to_type_common_to_type min_def)

lemma fst_run_max_macro_same:
  "fst (run (max_macro t t x y) s) =
     max (to_type t (fst (run x s))) (to_type t (fst (run y (snd (run x s)))))"
  by (simp add: max_macro_def split_def Let_def c_greater_def to_type_common_to_type max_def)

text \<open>A constant has the type it is given, and evaluating it changes nothing.\<close>

lemma typeof_const: "typeof (const t v) = t"
  by (simp add: const_def)

lemma run_const: "run (const t v) s = (v, s)"
  by (simp add: const_def)

text \<open>
  C1. On two operands of one integer type, \<open>min(x, y)\<close> has the value of \<open>x\<close> if
  \<open>x \<le> y\<close> and that of \<open>y\<close> otherwise, and \<open>max(x, y)\<close> has the value of \<open>x\<close> if
  \<open>x \<ge> y\<close> and that of \<open>y\<close> otherwise. The operands are any expressions of type \<open>t\<close>;
  \<open>vx\<close> and \<open>vy\<close> are the values they evaluate to, \<open>x\<close> first.
\<close>

theorem min_max_value:
  assumes "typeof x = t" and "typeof y = t"
    and "run x s = (vx, s1)" and "run y s1 = (vy, s2)"
    and "in_range t vx" and "in_range t vy"
  shows "fst (run (min_c x y) s) = (if vx \<le> vy then vx else vy) \<and>
         fst (run (max_c x y) s) = (if vx \<ge> vy then vx else vy)"
  using assms
  by (auto simp add: min_c_def max_c_def run_min_macro_same run_max_macro_same)

text \<open>The scenarios \<open>min(3, 5)\<close>, \<open>max(3, 5)\<close>, \<open>max(-1, 0)\<close> and \<open>min(7, 7)\<close>.\<close>

theorem min_max_value_witness:
  "in_range c_int 3 \<and> in_range c_int 5 \<and> in_range c_int (- 1) \<and> in_range c_int 0 \<and>
   in_range c_int 7 \<and>
   fst (run (min_c (const c_int 3) (const c_int 5)) ()) = 3 \<and>
   fst (run (max_c (const c_int 3) (const c_int 5)) ()) = 5 \<and>
   fst (run (max_c (const c_int (- 1)) (const c_int 0)) ()) = 0 \<and>
   fst (run (min_c (const c_int 7) (const c_int 7)) ()) = 7"
proof -
  have r: "in_range c_int 3" "in_range c_int 5" "in_range c_int (- 1)" "in_range c_int 0"
    "in_range c_int 7"
    by (simp_all add: in_range_c_int)
  note t = typeof_const [of c_int] and e = run_const [of c_int _ "()"]
  from min_max_value [OF t t e e r(1) r(2)] min_max_value [OF t t e e r(3) r(4)]
    min_max_value [OF t t e e r(5) r(5)] r
  show ?thesis by simp
qed

text \<open>
  C6. When both operands, of one integer type, evaluate to the same value \<open>v\<close>,
  \<open>min\<close> and \<open>max\<close> return \<open>v\<close>.
\<close>

theorem min_max_idempotent:
  assumes "typeof x = t" and "typeof y = t"
    and "run x s = (v, s1)" and "run y s1 = (v, s2)"
    and "in_range t v"
  shows "fst (run (min_c x y) s) = v \<and> fst (run (max_c x y) s) = v"
  using assms
  by (simp add: min_c_def max_c_def run_min_macro_same run_max_macro_same)

theorem min_max_idempotent_witness:
  "in_range c_uint64 18446744073709551615 \<and>
   fst (run (min_c (const c_uint64 18446744073709551615)
                   (const c_uint64 18446744073709551615)) ()) = 18446744073709551615 \<and>
   fst (run (max_c (const c_uint64 18446744073709551615)
                   (const c_uint64 18446744073709551615)) ()) = 18446744073709551615"
proof -
  have r: "in_range c_uint64 18446744073709551615"
    by (simp add: in_range_def c_uint64_def to_type_unsigned_id)
  note t = typeof_const [of c_uint64] and e = run_const [of c_uint64 _ "()"]
  from min_max_idempotent [OF t t e e r] r show ?thesis by simp
qed

section \<open>Effects of the macros\<close>

lemma snd_run_min_macro:
  "snd (run (min_macro t_x t_y x y) s) = snd (run y (snd (run x s)))"
  by (simp add: min_macro_def split_def Let_def)

lemma snd_run_max_macro:
  "snd (run (max_macro t_x t_y x y) s) = snd (run y (snd (run x s)))"
  by (simp add: max_macro_def split_def Let_def)

lemma run_probe_x:
  "snd (run (probe_x e) p) = p\<lparr>hits_x := hits_x p + 1, inner := snd (run e (inner p))\<rparr>"
  by (simp add: probe_x_def split_def)

lemma run_probe_y:
  "snd (run (probe_y e) p) = p\<lparr>hits_y := hits_y p + 1, inner := snd (run e (inner p))\<rparr>"
  by (simp add: probe_y_def split_def)

lemma operands_pure:
  assumes "run x s = (vx, s)" and "run y s = (vy, s)"
  shows "operands ord x y s = (vx, vy, s)"
  using assms by (cases ord) (simp_all add: operands_def)

lemma operands_probed:
  "operands ord (probe_x x) (probe_y y) p =
     (fst (operands ord x y (inner p)), fst (snd (operands ord x y (inner p))),
      p\<lparr>hits_x := hits_x p + 1, hits_y := hits_y p + 1,
        inner := snd (snd (operands ord x y (inner p)))\<rparr>)"
  by (cases ord) (simp_all add: operands_def probe_x_def probe_y_def split_def)

lemma run_min_macro_pure:
  assumes "run x s = (vx, s)" and "run y s = (vy, s)"
  shows "run (min_macro t_x t_y x y) s =
    (to_type (usual_arith t_x t_y)
       (if c_less t_x (to_type t_x vx) t_y (to_type t_y vy)
        then to_type t_x vx else to_type t_y vy), s)"
  using assms by (simp add: min_macro_def)

lemma run_max_macro_pure:
  assumes "run x s = (vx, s)" and "run y s = (vy, s)"
  shows "run (max_macro t_x t_y x y) s =
    (to_type (usual_arith t_x t_y)
       (if c_greater t_x (to_type t_x vx) t_y (to_type t_y vy)
        then to_type t_x vx else to_type t_y vy), s)"
  using assms by (simp add: max_macro_def)

lemma run_SIMPLE_MIN_pure:
  assumes "run x s = (vx, s)" and "run y s = (vy, s)"
  shows "run (SIMPLE_MIN ord x y) s =
    (to_type (usual_arith (typeof x) (typeof y))
       (if c_less (typeof x) vx (typeof y) vy then vx else vy), s)"
  using assms by (simp add: SIMPLE_MIN_def less_expr_def operands_pure)

lemma in_range_min_macro:
  "in_range (typeof (min_macro t_x t_y x y)) (fst (run (min_macro t_x t_y x y) s))"
  by (simp add: min_macro_def split_def Let_def in_range_to_type)

lemma in_range_max_macro:
  "in_range (typeof (max_macro t_x t_y x y)) (fst (run (max_macro t_x t_y x y) s))"
  by (simp add: max_macro_def split_def Let_def in_range_to_type)

lemma in_range_SIMPLE_MIN:
  "in_range (typeof (SIMPLE_MIN ord x y)) (fst (run (SIMPLE_MIN ord x y) s))"
  by (simp add: SIMPLE_MIN_def split_def in_range_to_type)

text \<open>The probed state with both counters at zero.\<close>

lemma probed_zero:
  "hits_x \<lparr>hits_x = 0, hits_y = 0, inner = s\<rparr> = 0"
  "hits_y \<lparr>hits_x = 0, hits_y = 0, inner = s\<rparr> = 0"
  "inner \<lparr>hits_x = 0, hits_y = 0, inner = s\<rparr> = s"
  by simp_all

text \<open>
  C2. \<open>min\<close> and \<open>max\<close> evaluate each operand exactly once: the state after the macro is
  the state after the effect of \<open>x\<close> followed by the effect of \<open>y\<close>, whatever the values
  are and whichever is returned; and when each operand counts its evaluations, each
  counter goes up by one.
\<close>

theorem min_max_single_evaluation:
  "snd (run (min_c x y) s) = snd (run y (snd (run x s))) \<and>
   snd (run (max_c x y) s) = snd (run y (snd (run x s))) \<and>
   hits_x (snd (run (min_c (probe_x x) (probe_y y)) p)) = hits_x p + 1 \<and>
   hits_y (snd (run (min_c (probe_x x) (probe_y y)) p)) = hits_y p + 1 \<and>
   hits_x (snd (run (max_c (probe_x x) (probe_y y)) p)) = hits_x p + 1 \<and>
   hits_y (snd (run (max_c (probe_x x) (probe_y y)) p)) = hits_y p + 1 \<and>
   inner (snd (run (min_c (probe_x x) (probe_y y)) p)) = snd (run y (snd (run x (inner p)))) \<and>
   inner (snd (run (max_c (probe_x x) (probe_y y)) p)) = snd (run y (snd (run x (inner p))))"
  by (simp add: min_c_def max_c_def snd_run_min_macro snd_run_max_macro run_probe_x run_probe_y)

text \<open>
  With \<^verbatim>\<open>i++\<close> for both operands and \<open>i = 4\<close>: \<open>min(i++, i++)\<close> leaves \<open>i = 6\<close>, and
  each operand was evaluated once.
\<close>

theorem min_max_single_evaluation_witness:
  "snd (run (min_c post_inc post_inc) 4) = 6 \<and>
   snd (run (max_c post_inc post_inc) 4) = 6 \<and>
   hits_x (snd (run (min_c (probe_x post_inc) (probe_y post_inc))
     \<lparr>hits_x = 0, hits_y = 0, inner = 4\<rparr>)) = 1 \<and>
   hits_y (snd (run (max_c (probe_x post_inc) (probe_y post_inc))
     \<lparr>hits_x = 0, hits_y = 0, inner = 4\<rparr>)) = 1"
proof -
  have "to_type c_uint 5 = 5" and "to_type c_uint 6 = 6"
    by (simp_all add: c_uint_def int_bits_def to_type_unsigned_id)
  then have "snd (run post_inc (snd (run post_inc 4))) = 6"
    by (simp add: post_inc_def)
  with min_max_single_evaluation
    [of post_inc post_inc 4 "\<lparr>hits_x = 0, hits_y = 0, inner = 4\<rparr>"]
  show ?thesis by (simp only: probed_zero) simp
qed

text \<open>
  C3. \<open>min_t(t, x, y)\<close> and \<open>max_t(t, x, y)\<close> convert both operands to \<open>t\<close> before they
  compare: they are \<open>min\<close> and \<open>max\<close> of the casts \<open>(t)(x)\<close> and \<open>(t)(y)\<close>, and their value
  is the least (greatest) of the two converted values. \<open>min_t(int64, 3, 5)\<close> is 3, of
  the 64-bit signed type.
\<close>

theorem min_t_max_t_coerce:
  "min_t t x y = min_c (cast t x) (cast t y) \<and>
   max_t t x y = max_c (cast t x) (cast t y) \<and>
   fst (run (min_t t x y) s) =
     min (to_type t (fst (run x s))) (to_type t (fst (run y (snd (run x s))))) \<and>
   fst (run (max_t t x y) s) =
     max (to_type t (fst (run x s))) (to_type t (fst (run y (snd (run x s))))) \<and>
   run (min_t c_int64 (const c_int 3) (const c_int 5)) s = (3, s) \<and>
   typeof (min_t c_int64 (const c_int 3) (const c_int 5) :: 's expr) = c_int64"
proof -
  have a: "min_t t x y = min_c (cast t x) (cast t y)"
    by (simp add: min_t_def min_c_def min_macro_def cast_def split_def to_type_idem)
  have b: "max_t t x y = max_c (cast t x) (cast t y)"
    by (simp add: max_t_def max_c_def max_macro_def cast_def split_def to_type_idem)
  have c: "fst (run (min_t t x y) s) =
      min (to_type t (fst (run x s))) (to_type t (fst (run y (snd (run x s)))))"
    by (simp add: min_t_def fst_run_min_macro_same)
  have d: "fst (run (max_t t x y) s) =
      max (to_type t (fst (run x s))) (to_type t (fst (run y (snd (run x s)))))"
    by (simp add: max_t_def fst_run_max_macro_same)
  have "to_type c_int64 3 = 3" and "to_type c_int64 5 = 5"
    by (simp_all add: c_int64_def to_type_signed_id)
  then have e: "run (min_t c_int64 (const c_int 3) (const c_int 5)) s = (3, s)"
    by (simp add: min_t_def min_macro_def const_def c_less_def usual_arith_c_int64)
  have f: "typeof (min_t c_int64 (const c_int 3) (const c_int 5) :: 's expr) = c_int64"
    by (simp add: min_t_def min_macro_def usual_arith_c_int64)
  from a b c d e f show ?thesis by (intro conjI)
qed

text \<open>
  The conversion matters: as \<^verbatim>\<open>unsigned int\<close>, \<open>-1\<close> is \<open>2 ^ 32 - 1\<close>, so
  \<open>min_t(unsigned int, -1, 1)\<close> is 1 and \<open>max_t(unsigned int, -1, 1)\<close> is \<open>2 ^ 32 - 1\<close>.
\<close>

theorem min_t_max_t_coerce_witness:
  "fst (run (min_t c_uint (const c_int (- 1)) (const c_int 1)) ()) = 1 \<and>
   fst (run (max_t c_uint (const c_int (- 1)) (const c_int 1)) ()) = 4294967295"
proof -
  have v: "to_type c_uint (- 1) = 4294967295" "to_type c_uint 1 = 1"
    by (simp_all add: c_uint_def int_bits_def to_type_unsigned_mod)
  note th = min_t_max_t_coerce [of c_uint "const c_int (- 1)" "const c_int 1" "()"]
  from th [THEN conjunct2, THEN conjunct2, THEN conjunct1] v
  have "fst (run (min_t c_uint (const c_int (- 1)) (const c_int 1)) ()) = 1"
    by (simp add: run_const)
  moreover
  from th [THEN conjunct2, THEN conjunct2, THEN conjunct2, THEN conjunct1] v
  have "fst (run (max_t c_uint (const c_int (- 1)) (const c_int 1)) ()) = 4294967295"
    by (simp add: run_const)
  ultimately show ?thesis by (rule conjI)
qed

text \<open>
  C4. On two operands that have no side effect in the state \<open>s\<close> and hold values of
  their types, \<open>SIMPLE_MIN(x, y)\<close> and \<open>min(x, y)\<close> have the same type, the same value
  and leave the same state, whichever operand of \<^verbatim>\<open><\<close> is evaluated first.
\<close>

theorem SIMPLE_MIN_eq_min:
  assumes "run x s = (vx, s)" and "run y s = (vy, s)"
    and "in_range (typeof x) vx" and "in_range (typeof y) vy"
  shows "run (SIMPLE_MIN ord x y) s = run (min_c x y) s \<and>
         typeof (SIMPLE_MIN ord x y) = typeof (min_c x y)"
proof -
  from assms(3,4) have "to_type (typeof x) vx = vx" and "to_type (typeof y) vy = vy"
    by (simp_all add: in_range_def)
  with assms(1,2) have "run (min_c x y) s = run (SIMPLE_MIN ord x y) s"
    by (simp add: min_c_def run_min_macro_pure run_SIMPLE_MIN_pure)
  moreover have "typeof (SIMPLE_MIN ord x y) = typeof (min_c x y)"
    by (simp add: SIMPLE_MIN_def min_c_def min_macro_def)
  ultimately show ?thesis by simp
qed

theorem SIMPLE_MIN_eq_min_witness:
  "in_range c_int 3 \<and> in_range c_int 5 \<and>
   run (SIMPLE_MIN LeftFirst (const c_int 3) (const c_int 5)) () =
     run (min_c (const c_int 3) (const c_int 5)) () \<and>
   run (SIMPLE_MIN RightFirst (const c_int 5) (const c_int 3)) () =
     run (min_c (const c_int 5) (const c_int 3)) () \<and>
   run (SIMPLE_MIN RightFirst (const c_int 5) (const c_int 3)) () = (3, ())"
proof -
  have r: "in_range (typeof (const c_int 3 :: unit expr)) 3"
    "in_range (typeof (const c_int 5 :: unit expr)) 5"
    by (simp_all add: typeof_const in_range_c_int)
  note e = run_const [of c_int _ "()"]
  have "to_type c_int 3 = 3" and "to_type c_int 5 = 5"
    by (simp_all add: c_int_def int_bits_def to_type_signed_id)
  then have "run (min_c (const c_int 5) (const c_int 3)) () = (3, ())"
    by (simp add: min_c_def min_macro_def const_def c_less_def usual_arith_c_int)
  with SIMPLE_MIN_eq_min [OF e e r(1) r(2), of LeftFirst]
    SIMPLE_MIN_eq_min [OF e e r(2) r(1), of RightFirst] r
  show ?thesis by (simp add: typeof_const)
qed

text \<open>
  C7. The five operations have no error branch and no effect of their own. On operands
  without side effects each leaves the state as it was, and its value is a function of
  the types and values of the operands alone: a second invocation, on other operands
  \<open>x'\<close>, \<open>y'\<close> of the same types and values, in another state and with the other
  evaluation order, returns the same. Whatever the operands are, the result is a value
  of the type of the operation.
\<close>

theorem operations_total_pure:
  assumes "run x s = (vx, s)" and "run y s = (vy, s)"
    and "run x' s' = (vx, s')" and "run y' s' = (vy, s')"
    and "typeof x' = typeof x" and "typeof y' = typeof y"
  shows "run (min_c x y) s = (fst (run (min_c x' y') s'), s) \<and>
         run (max_c x y) s = (fst (run (max_c x' y') s'), s) \<and>
         run (min_t t x y) s = (fst (run (min_t t x' y') s'), s) \<and>
         run (max_t t x y) s = (fst (run (max_t t x' y') s'), s) \<and>
         run (SIMPLE_MIN ord x y) s = (fst (run (SIMPLE_MIN ord' x' y') s'), s) \<and>
         in_range (typeof (min_c a b)) (fst (run (min_c a b) s0)) \<and>
         in_range (typeof (max_c a b)) (fst (run (max_c a b) s0)) \<and>
         in_range (typeof (min_t t a b)) (fst (run (min_t t a b) s0)) \<and>
         in_range (typeof (max_t t a b)) (fst (run (max_t t a b) s0)) \<and>
         in_range (typeof (SIMPLE_MIN ord a b)) (fst (run (SIMPLE_MIN ord a b) s0))"
proof -
  note pure = run_min_macro_pure run_max_macro_pure run_SIMPLE_MIN_pure
  have "run (min_c x y) s = (fst (run (min_c x' y') s'), s)"
    using assms by (simp add: min_c_def pure)
  moreover have "run (max_c x y) s = (fst (run (max_c x' y') s'), s)"
    using assms by (simp add: max_c_def pure)
  moreover have "run (min_t t x y) s = (fst (run (min_t t x' y') s'), s)"
    using assms(1-4) by (simp add: min_t_def pure)
  moreover have "run (max_t t x y) s = (fst (run (max_t t x' y') s'), s)"
    using assms(1-4) by (simp add: max_t_def pure)
  moreover have "run (SIMPLE_MIN ord x y) s = (fst (run (SIMPLE_MIN ord' x' y') s'), s)"
    using assms by (simp add: pure)
  moreover have "in_range (typeof (min_c a b)) (fst (run (min_c a b) s0))"
    by (simp only: min_c_def in_range_min_macro)
  moreover have "in_range (typeof (max_c a b)) (fst (run (max_c a b) s0))"
    by (simp only: max_c_def in_range_max_macro)
  moreover have "in_range (typeof (min_t t a b)) (fst (run (min_t t a b) s0))"
    by (simp only: min_t_def in_range_min_macro)
  moreover have "in_range (typeof (max_t t a b)) (fst (run (max_t t a b) s0))"
    by (simp only: max_t_def in_range_max_macro)
  moreover have "in_range (typeof (SIMPLE_MIN ord a b)) (fst (run (SIMPLE_MIN ord a b) s0))"
    by (rule in_range_SIMPLE_MIN)
  ultimately show ?thesis by (intro conjI)
qed

text \<open>
  Two invocations on the values 3 and 5, once as constants and once as casts of
  constants, in the states 0 and 1; and the results of \<open>min\<close> and \<open>max\<close> on two
  evaluations of \<^verbatim>\<open>i++\<close> from the greatest \<^verbatim>\<open>unsigned int\<close>, which are values of
  \<^verbatim>\<open>unsigned int\<close>.
\<close>

theorem operations_total_pure_witness:
  "run (min_c (const c_int 3) (const c_int 5)) (0::int) =
     (fst (run (min_c (cast c_int (const c_int64 3)) (cast c_int (const c_int64 5))) (1::int)), 0) \<and>
   run (SIMPLE_MIN LeftFirst (const c_int 3) (const c_int 5)) (0::int) =
     (fst (run (SIMPLE_MIN RightFirst (cast c_int (const c_int64 3))
        (cast c_int (const c_int64 5))) (1::int)), 0) \<and>
   in_range (typeof (min_c post_inc post_inc)) (fst (run (min_c post_inc post_inc) 4294967295)) \<and>
   in_range (typeof (max_c post_inc post_inc)) (fst (run (max_c post_inc post_inc) 4294967295))"
proof -
  have v: "to_type c_int 3 = 3" "to_type c_int 5 = 5"
    by (simp_all add: c_int_def int_bits_def to_type_signed_id)
  have c3: "run (cast c_int (const c_int64 3)) (1::int) = (3, 1)"
    and c5: "run (cast c_int (const c_int64 5)) (1::int) = (5, 1)"
    using v by (simp_all add: cast_def const_def)
  have t3: "typeof (cast c_int (const c_int64 3 :: int expr)) = typeof (const c_int 3 :: int expr)"
    and t5: "typeof (cast c_int (const c_int64 5 :: int expr)) = typeof (const c_int 5 :: int expr)"
    by (simp_all add: cast_def const_def)
  note e = run_const [of c_int _ "0::int"]
  note th = operations_total_pure [OF e e c3 c5 t3 t5,
      of c_int LeftFirst RightFirst post_inc post_inc 4294967295]
  from th show ?thesis by (elim conjE) (intro conjI; assumption)
qed

text \<open>
  C9. On two operands of one integer type, \<open>min\<close> and \<open>max\<close> of the same two values are
  those two values in some order: their sum is the sum of the operands (exactly, and
  so also modulo \<open>2 ^ w\<close>), \<open>min\<close> is at most \<open>max\<close>, and on a tie both return the
  value of the second operand.
\<close>

theorem min_max_rearrangement:
  assumes "typeof x = t" and "typeof y = t"
    and "run x s = (vx, s1)" and "run y s1 = (vy, s2)"
    and "in_range t vx" and "in_range t vy"
  shows "(let m = fst (run (min_c x y) s); M = fst (run (max_c x y) s) in
          ((m, M) = (vx, vy) \<or> (m, M) = (vy, vx)) \<and>
          m + M = vx + vy \<and>
          (m + M) mod 2 ^ bits t = (vx + vy) mod 2 ^ bits t \<and>
          m \<le> M \<and>
          (if vx = vy then m = vy \<and> M = vy else m \<noteq> M))"
  using assms
  by (auto simp add: min_c_def max_c_def run_min_macro_same run_max_macro_same Let_def
      add.commute)

theorem min_max_rearrangement_witness:
  "in_range c_uint 4294967295 \<and> in_range c_uint 2 \<and>
   fst (run (min_c (const c_uint 4294967295) (const c_uint 2)) ()) = 2 \<and>
   fst (run (max_c (const c_uint 4294967295) (const c_uint 2)) ()) = 4294967295"
proof -
  have r: "in_range c_uint 4294967295" "in_range c_uint 2"
    by (simp_all add: in_range_def c_uint_def int_bits_def to_type_unsigned_id)
  note t = typeof_const [of c_uint] and e = run_const [of c_uint _ "()"]
  from min_max_rearrangement [OF t t e e r] r show ?thesis
    by (auto simp add: Let_def)
qed

section \<open>Operands of different integer types\<close>

lemma fst_run_min_macro_typed:
  assumes "run x s = (vx, s1)" and "run y s1 = (vy, s2)"
    and "in_range t_x vx" and "in_range t_y vy"
  shows "fst (run (min_macro t_x t_y x y) s) =
    (if to_type (usual_arith t_x t_y) vx < to_type (usual_arith t_x t_y) vy
     then to_type (usual_arith t_x t_y) vx else to_type (usual_arith t_x t_y) vy)"
proof -
  from assms(3,4) have "to_type t_x vx = vx" and "to_type t_y vy = vy"
    by (simp_all add: in_range_def)
  with assms(1,2) show ?thesis
    by (simp add: min_macro_def c_less_def)
qed

lemma fst_run_max_macro_typed:
  assumes "run x s = (vx, s1)" and "run y s1 = (vy, s2)"
    and "in_range t_x vx" and "in_range t_y vy"
  shows "fst (run (max_macro t_x t_y x y) s) =
    (if to_type (usual_arith t_x t_y) vx > to_type (usual_arith t_x t_y) vy
     then to_type (usual_arith t_x t_y) vx else to_type (usual_arith t_x t_y) vy)"
proof -
  from assms(3,4) have "to_type t_x vx = vx" and "to_type t_y vy = vy"
    by (simp_all add: in_range_def)
  with assms(1,2) show ?thesis
    by (simp add: max_macro_def c_greater_def)
qed

lemma typeof_min_macro: "typeof (min_macro t_x t_y x y) = usual_arith t_x t_y"
  by (simp add: min_macro_def)

lemma typeof_max_macro: "typeof (max_macro t_x t_y x y) = usual_arith t_x t_y"
  by (simp add: max_macro_def)

lemma signed_unsigned_wide_values:
  assumes "in_range (CInt True w) vx" and "in_range (CInt False w) vy"
    and "vx < 0" and "int_bits \<le> w"
  shows "to_type (CInt False w) vx = vx mod 2 ^ w"
    and "to_type (CInt False w) vy = vy"
    and "2 ^ (w - 1) \<le> vx mod 2 ^ w"
proof -
  show "to_type (CInt False w) vx = vx mod 2 ^ w"
    by (rule to_type_unsigned_mod)
  from assms(2) show "to_type (CInt False w) vy = vy"
    by (simp add: in_range_def)
  from assms(4) have "0 < w" by (simp add: int_bits_def)
  with assms(1,3) show "2 ^ (w - 1) \<le> vx mod 2 ^ w"
    by (rule neg_signed_mod_ge)
qed

lemma signed_unsigned_narrow_values:
  assumes "in_range (CInt True w) vx" and "in_range (CInt False w) vy"
    and "vx < 0" and "w < int_bits"
  shows "to_type c_int vx = vx" and "to_type c_int vy = vy" and "vx < vy"
proof -
  from assms(1,4) show "to_type c_int vx = vx" by (simp add: in_range_narrow_c_int)
  from assms(2,4) show "to_type c_int vy = vy" by (simp add: in_range_narrow_c_int)
  from assms(2) have "0 \<le> vy"
    by (simp add: in_range_def to_type_def take_bit_int_eq_self_iff)
  with assms(3) show "vx < vy" by simp
qed

text \<open>
  C8, as the code has it. When \<open>min\<close> or \<open>max\<close> is invoked with operands of different
  integer types, each operand is bound to a local of its own type and the comparison
  is made after the usual arithmetic conversions: with \<open>c\<close> the common type of the two
  types, both macros have type \<open>c\<close>, compare the two values converted to \<open>c\<close>, and return
  the lesser (greater) of the converted values.

  For a negative value \<open>vx\<close> of a signed type and a value \<open>vy\<close> of the unsigned type of
  the same width \<open>w\<close>: when \<open>w\<close> is at least the width of \<^verbatim>\<open>int\<close>, the common type is the
  unsigned one, \<open>vx\<close> takes part as \<open>vx mod 2 ^ w\<close>, which is at least \<open>2 ^ (w - 1)\<close>, and
  \<open>min\<close> returns the lesser of \<open>vx mod 2 ^ w\<close> and \<open>vy\<close>; so it returns \<open>vy\<close> whenever
  \<open>vy < 2 ^ (w - 1)\<close>, but not for every \<open>vy\<close>. When \<open>w\<close> is less than the width of
  \<^verbatim>\<open>int\<close>, both are promoted to \<^verbatim>\<open>int\<close>, \<open>min\<close> returns \<open>vx\<close> and \<open>max\<close> returns \<open>vy\<close>.
\<close>

theorem min_max_mixed_types:
  assumes "typeof x = t_x" and "typeof y = t_y"
    and "run x s = (vx, s1)" and "run y s1 = (vy, s2)"
    and "in_range t_x vx" and "in_range t_y vy"
  shows "(let c = usual_arith t_x t_y; a = to_type c vx; b = to_type c vy in
            typeof (min_c x y) = c \<and> typeof (max_c x y) = c \<and>
            fst (run (min_c x y) s) = (if a < b then a else b) \<and>
            fst (run (max_c x y) s) = (if a > b then a else b)) \<and>
         (t_x = CInt True w \<and> t_y = CInt False w \<and> vx < 0 \<longrightarrow>
            (int_bits \<le> w \<longrightarrow>
               usual_arith t_x t_y = CInt False w \<and>
               2 ^ (w - 1) \<le> vx mod 2 ^ w \<and>
               fst (run (min_c x y) s) = (if vx mod 2 ^ w < vy then vx mod 2 ^ w else vy) \<and>
               (vy < 2 ^ (w - 1) \<longrightarrow> fst (run (min_c x y) s) = vy) \<and>
               fst (run (max_c x y) s) = (if vx mod 2 ^ w > vy then vx mod 2 ^ w else vy)) \<and>
            (w < int_bits \<longrightarrow>
               usual_arith t_x t_y = c_int \<and>
               fst (run (min_c x y) s) = vx \<and>
               fst (run (max_c x y) s) = vy))"
proof -
  have mn: "fst (run (min_c x y) s) =
      (if to_type (usual_arith t_x t_y) vx < to_type (usual_arith t_x t_y) vy
       then to_type (usual_arith t_x t_y) vx else to_type (usual_arith t_x t_y) vy)"
    using assms by (simp only: min_c_def fst_run_min_macro_typed)
  have mx: "fst (run (max_c x y) s) =
      (if to_type (usual_arith t_x t_y) vx > to_type (usual_arith t_x t_y) vy
       then to_type (usual_arith t_x t_y) vx else to_type (usual_arith t_x t_y) vy)"
    using assms by (simp only: max_c_def fst_run_max_macro_typed)
  have ty: "typeof (min_c x y) = usual_arith t_x t_y" "typeof (max_c x y) = usual_arith t_x t_y"
    using assms(1,2) by (simp_all add: min_c_def max_c_def typeof_min_macro typeof_max_macro)
  have general: "(let c = usual_arith t_x t_y; a = to_type c vx; b = to_type c vy in
            typeof (min_c x y) = c \<and> typeof (max_c x y) = c \<and>
            fst (run (min_c x y) s) = (if a < b then a else b) \<and>
            fst (run (max_c x y) s) = (if a > b then a else b))"
    unfolding Let_def using mn mx ty by (intro conjI)
  have special: "usual_arith t_x t_y = CInt False w \<and>
               2 ^ (w - 1) \<le> vx mod 2 ^ w \<and>
               fst (run (min_c x y) s) = (if vx mod 2 ^ w < vy then vx mod 2 ^ w else vy) \<and>
               (vy < 2 ^ (w - 1) \<longrightarrow> fst (run (min_c x y) s) = vy) \<and>
               fst (run (max_c x y) s) = (if vx mod 2 ^ w > vy then vx mod 2 ^ w else vy)"
    if t: "t_x = CInt True w" "t_y = CInt False w" and neg: "vx < 0" and w: "int_bits \<le> w"
  proof -
    from t w have c: "usual_arith t_x t_y = CInt False w"
      by (simp add: usual_arith_signed_unsigned_wide)
    from assms(5,6) t have r: "in_range (CInt True w) vx" "in_range (CInt False w) vy"
      by simp_all
    note v = signed_unsigned_wide_values [OF r neg w]
    from mn c v(1,2)
    have a: "fst (run (min_c x y) s) = (if vx mod 2 ^ w < vy then vx mod 2 ^ w else vy)"
      by simp
    from mx c v(1,2)
    have b: "fst (run (max_c x y) s) = (if vx mod 2 ^ w > vy then vx mod 2 ^ w else vy)"
      by simp
    from a v(3) have d: "vy < 2 ^ (w - 1) \<longrightarrow> fst (run (min_c x y) s) = vy"
      by simp
    from c v(3) a d b show ?thesis by (intro conjI)
  qed
  have narrow: "usual_arith t_x t_y = c_int \<and>
               fst (run (min_c x y) s) = vx \<and>
               fst (run (max_c x y) s) = vy"
    if t: "t_x = CInt True w" "t_y = CInt False w" and neg: "vx < 0" and w: "w < int_bits"
  proof -
    from t w have c: "usual_arith t_x t_y = c_int"
      by (simp add: usual_arith_narrow)
    from assms(5,6) t have r: "in_range (CInt True w) vx" "in_range (CInt False w) vy"
      by simp_all
    note v = signed_unsigned_narrow_values [OF r neg w]
    from mn c v have a: "fst (run (min_c x y) s) = vx" by simp
    from mx c v have b: "fst (run (max_c x y) s) = vy" by simp
    from c a b show ?thesis by (intro conjI)
  qed
  from general special narrow show ?thesis by blast
qed

text \<open>
  On \<^verbatim>\<open>int\<close> against \<^verbatim>\<open>unsigned int\<close>: \<open>min(-1, 1u)\<close> is \<open>1u\<close>, \<open>max(-1, 1u)\<close> is
  \<open>4294967295u\<close>, and \<open>min(-2, 4294967295u)\<close> is \<open>4294967294u\<close>. On different widths:
  \<open>min(-1LL, 1u)\<close> is \<open>-1\<close> and \<open>max(-1LL, 1u)\<close> is \<open>1\<close>, of the 64-bit signed type, and
  \<open>max(-1, 1ULL)\<close> is \<open>18446744073709551615\<close>. On \<^verbatim>\<open>signed char\<close> against
  \<^verbatim>\<open>unsigned char\<close>: \<open>min(-1, 1)\<close> is \<open>-1\<close> and \<open>max(-1, 1)\<close> is \<open>1\<close>, of type \<^verbatim>\<open>int\<close>.
\<close>

theorem min_max_mixed_types_witness:
  "in_range c_int (- 1) \<and> in_range c_uint 1 \<and> (- 1 :: int) < 0 \<and> int_bits \<le> 32 \<and>
   fst (run (min_c (const c_int (- 1)) (const c_uint 1)) ()) = 1 \<and>
   fst (run (max_c (const c_int (- 1)) (const c_uint 1)) ()) = 4294967295 \<and>
   typeof (max_c (const c_int (- 1)) (const c_uint 1) :: unit expr) = c_uint \<and>
   in_range c_int (- 2) \<and> in_range c_uint 4294967295 \<and>
   fst (run (min_c (const c_int (- 2)) (const c_uint 4294967295)) ()) = 4294967294 \<and>
   in_range c_int64 (- 1) \<and>
   fst (run (min_c (const c_int64 (- 1)) (const c_uint 1)) ()) = - 1 \<and>
   fst (run (max_c (const c_int64 (- 1)) (const c_uint 1)) ()) = 1 \<and>
   typeof (min_c (const c_int64 (- 1)) (const c_uint 1) :: unit expr) = c_int64 \<and>
   in_range c_uint64 1 \<and>
   fst (run (max_c (const c_int (- 1)) (const c_uint64 1)) ()) = 18446744073709551615 \<and>
   in_range (CInt True 8) (- 1) \<and> in_range (CInt False 8) 1 \<and> 8 < int_bits \<and>
   fst (run (min_c (const (CInt True 8) (- 1)) (const (CInt False 8) 1)) ()) = - 1 \<and>
   fst (run (max_c (const (CInt True 8) (- 1)) (const (CInt False 8) 1)) ()) = 1 \<and>
   typeof (min_c (const (CInt True 8) (- 1)) (const (CInt False 8) 1) :: unit expr) = c_int"
proof -
  have r: "in_range c_int (- 1)" "in_range c_uint 1"
    "in_range c_int (- 2)" "in_range c_uint 4294967295"
    "in_range c_int64 (- 1)" "in_range c_uint64 1"
    "in_range (CInt True 8) (- 1)" "in_range (CInt False 8) 1"
    by (simp_all add: in_range_def c_int_def c_uint_def c_int64_def c_uint64_def int_bits_def
        to_type_signed_id to_type_unsigned_id)
  have n: "(- 1 :: int) < 0" "(- 2 :: int) < 0" by simp_all
  have w: "int_bits \<le> 32" "8 < int_bits" by (simp_all add: int_bits_def)
  have ci: "c_int = CInt True 32" "c_uint = CInt False 32"
    by (simp_all add: c_int_def c_uint_def int_bits_def)
  note t = typeof_const and e = run_const [of _ _ "()"]
  note same = min_max_mixed_types [OF t t e e, where w = 32]
  note narrow = min_max_mixed_types [OF t t e e r(7) r(8), where w = 8]
  from same [OF r(1) r(2), THEN conjunct2] ci n w
  have a: "fst (run (min_c (const c_int (- 1)) (const c_uint 1)) ()) = 1"
    and b: "fst (run (max_c (const c_int (- 1)) (const c_uint 1)) ()) = 4294967295"
    and ua: "usual_arith c_int c_uint = c_uint"
    by (simp_all add: Let_def)
  from same [OF r(1) r(2), THEN conjunct1] ua
  have c: "typeof (max_c (const c_int (- 1)) (const c_uint 1) :: unit expr) = c_uint"
    by (simp add: Let_def)
  from same [OF r(3) r(4), THEN conjunct2] ci n w
  have d: "fst (run (min_c (const c_int (- 2)) (const c_uint 4294967295)) ()) = 4294967294"
    by (simp add: Let_def)
  have u1: "usual_arith c_int64 c_uint = c_int64"
    by (simp add: usual_arith_def promote_def c_int64_def c_uint_def int_bits_def)
  have v1: "to_type c_int64 (- 1) = - 1" "to_type c_int64 1 = 1"
    by (simp_all add: c_int64_def to_type_signed_id)
  from same [OF r(5) r(2), THEN conjunct1] u1 v1
  have f: "fst (run (min_c (const c_int64 (- 1)) (const c_uint 1)) ()) = - 1"
    and g: "fst (run (max_c (const c_int64 (- 1)) (const c_uint 1)) ()) = 1"
    and h: "typeof (min_c (const c_int64 (- 1)) (const c_uint 1) :: unit expr) = c_int64"
    by (simp_all add: Let_def)
  have u2: "usual_arith c_int c_uint64 = c_uint64"
    by (simp add: usual_arith_def promote_def c_int_def c_uint64_def int_bits_def)
  have v2: "to_type c_uint64 (- 1) = 18446744073709551615" "to_type c_uint64 1 = 1"
    by (simp_all add: c_uint64_def to_type_unsigned_mod)
  from same [OF r(1) r(6), THEN conjunct1] u2 v2
  have i: "fst (run (max_c (const c_int (- 1)) (const c_uint64 1)) ()) = 18446744073709551615"
    by (simp add: Let_def)
  from narrow [THEN conjunct2] n w
  have j: "fst (run (min_c (const (CInt True 8) (- 1)) (const (CInt False 8) 1)) ()) = - 1"
    and k: "fst (run (max_c (const (CInt True 8) (- 1)) (const (CInt False 8) 1)) ()) = 1"
    and un: "usual_arith (CInt True 8) (CInt False 8) = c_int"
    by (simp_all add: Let_def)
  from narrow [THEN conjunct1] un
  have l: "typeof (min_c (const (CInt True 8) (- 1)) (const (CInt False 8) 1) :: unit expr)
      = c_int"
    by (simp add: Let_def)
  from r n w a b c d f g h i j k l show ?thesis by (intro conjI)
qed

text \<open>
  C8, as stated, fails: \<open>-2\<close> is a negative \<^verbatim>\<open>int\<close>, \<open>4294967295\<close> is an
  \<^verbatim>\<open>unsigned int\<close> of the same width, \<open>-2 mod 2 ^ 32 = 4294967294\<close> does not exceed it,
  and \<open>min\<close> returns \<open>4294967294\<close>, which is not \<open>y\<close>.
\<close>

theorem min_signed_unsigned_counterexample:
  "in_range c_int (- 2) \<and> (- 2 :: int) < 0 \<and> in_range c_uint 4294967295 \<and>
   bits c_int = bits c_uint \<and>
   fst (run (min_c (const c_int (- 2)) (const c_uint 4294967295)) ()) = 4294967294 \<and>
   fst (run (min_c (const c_int (- 2)) (const c_uint 4294967295)) ()) \<noteq> 4294967295 \<and>
   \<not> (4294967295 < (- 2 :: int) mod 2 ^ 32)"
  by (simp add: in_range_def c_int_def c_uint_def int_bits_def to_type_signed_id
      to_type_unsigned_mod min_c_def min_macro_def const_def c_less_def
      usual_arith_signed_unsigned_wide)

text \<open>
  C10. \<open>SIMPLE_MIN(x, y)\<close> evaluates both operands once for the comparison, in either
  order, and then the operand it returns once more: when each operand counts its
  evaluations, after the comparison both counters are up by one, and after the macro
  the counter of the returned operand is up by two and the other by one.
\<close>

theorem SIMPLE_MIN_double_evaluation:
  "hits_x (snd (less_expr ord (probe_x x) (probe_y y) p)) = hits_x p + 1 \<and>
   hits_y (snd (less_expr ord (probe_x x) (probe_y y) p)) = hits_y p + 1 \<and>
   hits_x (snd (run (SIMPLE_MIN ord (probe_x x) (probe_y y)) p)) =
     hits_x p + (if fst (less_expr ord (probe_x x) (probe_y y) p) then 2 else 1) \<and>
   hits_y (snd (run (SIMPLE_MIN ord (probe_x x) (probe_y y)) p)) =
     hits_y p + (if fst (less_expr ord (probe_x x) (probe_y y) p) then 1 else 2) \<and>
   snd (run (SIMPLE_MIN ord x y) s) =
     snd (run (if fst (less_expr ord x y s) then x else y) (snd (less_expr ord x y s)))"
  by (simp add: SIMPLE_MIN_def less_expr_def operands_probed run_probe_x run_probe_y split_def)

text \<open>
  \<open>SIMPLE_MIN(i++, 10u)\<close> with \<open>i = 4\<close>: the comparison reads 4 and leaves \<open>i = 5\<close>; the
  returned operand is evaluated again, so the value is 5 and \<open>i\<close> ends at 6.
\<close>

theorem SIMPLE_MIN_double_evaluation_witness:
  "run (SIMPLE_MIN LeftFirst post_inc (const c_uint 10)) 4 = (5, 6) \<and>
   hits_x (snd (run (SIMPLE_MIN LeftFirst (probe_x post_inc) (probe_y (const c_uint 10)))
     \<lparr>hits_x = 0, hits_y = 0, inner = 4\<rparr>)) = 2 \<and>
   hits_y (snd (run (SIMPLE_MIN LeftFirst (probe_x post_inc) (probe_y (const c_uint 10)))
     \<lparr>hits_x = 0, hits_y = 0, inner = 4\<rparr>)) = 1 \<and>
   hits_x (snd (run (SIMPLE_MIN RightFirst (probe_x (const c_uint 10)) (probe_y post_inc))
     \<lparr>hits_x = 0, hits_y = 0, inner = 4\<rparr>)) = 1 \<and>
   hits_y (snd (run (SIMPLE_MIN RightFirst (probe_x (const c_uint 10)) (probe_y post_inc))
     \<lparr>hits_x = 0, hits_y = 0, inner = 4\<rparr>)) = 2"
proof -
  have v: "to_type c_uint 4 = 4" "to_type c_uint 5 = 5" "to_type c_uint 6 = 6"
    "to_type c_uint 10 = 10"
    by (simp_all add: c_uint_def int_bits_def to_type_unsigned_id)
  have a: "run (SIMPLE_MIN LeftFirst post_inc (const c_uint 10)) 4 = (5, 6)"
    using v by (simp add: SIMPLE_MIN_def less_expr_def operands_def post_inc_def const_def
        c_less_def usual_arith_c_uint)
  have l: "fst (less_expr LeftFirst (probe_x post_inc) (probe_y (const c_uint 10))
      \<lparr>hits_x = 0, hits_y = 0, inner = 4\<rparr>)"
    using v by (simp add: less_expr_def operands_def probe_x_def probe_y_def post_inc_def
        const_def c_less_def usual_arith_c_uint)
  have r: "\<not> fst (less_expr RightFirst (probe_x (const c_uint 10)) (probe_y post_inc)
      \<lparr>hits_x = 0, hits_y = 0, inner = 4\<rparr>)"
    using v by (simp add: less_expr_def operands_def probe_x_def probe_y_def post_inc_def
        const_def c_less_def usual_arith_c_uint)
  from SIMPLE_MIN_double_evaluation
    [of LeftFirst post_inc "const c_uint 10" "\<lparr>hits_x = 0, hits_y = 0, inner = 4\<rparr>"] l
  have b: "hits_x (snd (run (SIMPLE_MIN LeftFirst (probe_x post_inc) (probe_y (const c_uint 10)))
      \<lparr>hits_x = 0, hits_y = 0, inner = 4\<rparr>)) = 2"
    and c: "hits_y (snd (run (SIMPLE_MIN LeftFirst (probe_x post_inc) (probe_y (const c_uint 10)))
      \<lparr>hits_x = 0, hits_y = 0, inner = 4\<rparr>)) = 1"
    by simp_all
  from SIMPLE_MIN_double_evaluation
    [of RightFirst "const c_uint 10" post_inc "\<lparr>hits_x = 0, hits_y = 0, inner = 4\<rparr>"] r
  have d: "hits_x (snd (run (SIMPLE_MIN RightFirst (probe_x (const c_uint 10)) (probe_y post_inc))
      \<lparr>hits_x = 0, hits_y = 0, inner = 4\<rparr>)) = 1"
    and e: "hits_y (snd (run (SIMPLE_MIN RightFirst (probe_x (const c_uint 10)) (probe_y post_inc))
      \<lparr>hits_x = 0, hits_y = 0, inner = 4\<rparr>)) = 2"
    by simp_all
  from a b c d e show ?thesis by (intro conjI)
qed

end
